theory Spec2Isabelle
  imports Complex_Main "HOL-Library.List_Lexorder" "HOL-Library.Multiset"
begin

section \<open>Nearest-neighbour estimators of (conditional) mutual information\<close>

text \<open>
  A shallow embedding of \<^verbatim>\<open>mutual_info.py\<close>. Sample values are real numbers; the
  two numeric primitives the module takes from its libraries are kept apart from the
  code of the module itself: the digamma function is a parameter of the estimators, and
  \<^verbatim>\<open>np.nextafter(d, 0)\<close> is written out for the binary64 format.

  What the real numbers leave out: differences, means and sums are exact here and
  rounded in the program, and there are no infinities and no NaN. The model agrees with
  the program on the order of distances wherever the coordinate differences are
  binary64 values themselves, as they are for integer-valued samples of moderate size.
  Every function of the module is a definition of the same name; the library calls
  (\<^verbatim>\<open>np.hstack\<close>, \<^verbatim>\<open>np.unique\<close>, \<^verbatim>\<open>KDTree\<close>) are modelled by what their documentation
  promises.
\<close>

subsection \<open>Errors\<close>

text \<open>
  Every failure of the module is a Python exception. The constructors name the place
  that raises:
  \<^item> \<open>NotSized\<close>: \<^verbatim>\<open>len(x)\<close> on a rank-0 array (TypeError);
  \<^item> \<open>InvalidShape\<close>: the \<^verbatim>\<open>raise ValueError('x.ndim not equal to 1 or 2')\<close> of
    \<^verbatim>\<open>ensure_2d\<close>;
  \<^item> \<open>InvalidNoiseKind\<close>: the \<^verbatim>\<open>raise ValueError('Invalid noise type')\<close> of
    \<^verbatim>\<open>add_noise\<close>;
  \<^item> \<open>DimensionMismatch\<close>: the ValueError of \<^verbatim>\<open>np.hstack\<close> on blocks whose row
    counts differ;
  \<^item> \<open>InvalidIndexData\<close>: the ValueError of the \<^verbatim>\<open>KDTree\<close> constructor on an array
    without samples or without features;
  \<^item> \<open>InsufficientSamples\<close>: the ValueError of \<^verbatim>\<open>KDTree.query\<close> when more
    neighbours are requested than the tree has points.
\<close>

datatype error =
    NotSized
  | InvalidShape
  | InvalidNoiseKind
  | DimensionMismatch
  | InvalidIndexData
  | InsufficientSamples

subsection \<open>Arrays\<close>

text \<open>A numpy array: its shape and its elements in row-major order.\<close>

record ndarray =
  shape :: "nat list"
  data :: "real list"

definition ndim :: "ndarray \<Rightarrow> nat" where
  "ndim x = length (shape x)"

definition wf_array :: "ndarray \<Rightarrow> bool" where
  "wf_array x \<longleftrightarrow> length (data x) = prod_list (shape x)"

text \<open>\<^verbatim>\<open>len(x)\<close>: the first dimension; a rank-0 array has no length.\<close>

definition len :: "ndarray \<Rightarrow> error + nat" where
  "len x = (case shape x of [] \<Rightarrow> Inl NotSized | n # _ \<Rightarrow> Inr n)"

text \<open>\<^verbatim>\<open>x.reshape(-1, 1)\<close>: one column, as many rows as there are elements.\<close>

definition reshape_column :: "ndarray \<Rightarrow> ndarray" where
  "reshape_column x = \<lparr>shape = [length (data x), 1], data = data x\<rparr>"

text \<open>
  \<^verbatim>\<open>
  def ensure_2d(x):
      if x.ndim == 1:
          x = x.reshape(-1, 1)
      else:
          raise ValueError('x.ndim not equal to 1 or 2')
      return x
  \<close>
\<close>

definition ensure_2d :: "ndarray \<Rightarrow> error + ndarray" where
  "ensure_2d x = (if ndim x = 1 then Inr (reshape_column x) else Inl InvalidShape)"

subsection \<open>Matrices as lists of rows\<close>

text \<open>A rank-2 array of shape \<open>[n, d]\<close> is read as \<open>n\<close> rows of \<open>d\<close> elements.\<close>

fun chunks :: "nat \<Rightarrow> nat \<Rightarrow> 'a list \<Rightarrow> 'a list list" where
  "chunks 0 d xs = []"
| "chunks (Suc n) d xs = take d xs # chunks n d (drop d xs)"

definition nrows :: "ndarray \<Rightarrow> nat" where
  "nrows x = (case shape x of [n, d] \<Rightarrow> n | _ \<Rightarrow> 0)"

definition ncols :: "ndarray \<Rightarrow> nat" where
  "ncols x = (case shape x of [n, d] \<Rightarrow> d | _ \<Rightarrow> 0)"

definition rows :: "ndarray \<Rightarrow> real list list" where
  "rows x = chunks (nrows x) (ncols x) (data x)"

definition of_rows :: "nat \<Rightarrow> real list list \<Rightarrow> ndarray" where
  "of_rows d rs = \<lparr>shape = [length rs, d], data = concat rs\<rparr>"

text \<open>
  \<^verbatim>\<open>np.hstack\<close> on rank-2 arrays (the only way the module calls it): the rows are
  joined column block by column block; arrays whose row counts differ are refused with
  a ValueError, and so is an empty sequence of arrays.
\<close>

fun hstack :: "ndarray list \<Rightarrow> error + ndarray" where
  "hstack [] = Inl DimensionMismatch"
| "hstack (x # xs) =
     (if \<forall>y \<in> set xs. nrows y = nrows x
      then Inr (of_rows (sum_list (map ncols (x # xs)))
                 (map (\<lambda>i. concat (map (\<lambda>a. rows a ! i) (x # xs))) [0..<nrows x]))
      else Inl DimensionMismatch)"

definition mean :: "real list \<Rightarrow> real" where
  "mean xs = sum_list xs / real (length xs)"

subsection \<open>The binary64 step towards zero\<close>

text \<open>
  \<open>binary_exponent d\<close> is the \<open>e\<close> with \<open>2 ^ e \<le> d < 2 ^ (e + 1)\<close> for a positive
  \<open>d\<close>, found by halving or doubling.
\<close>

function exponent_ge1 :: "real \<Rightarrow> int" where
  "exponent_ge1 d = (if d < 2 then 0 else exponent_ge1 (d / 2) + 1)"
  by pat_completeness auto
termination
proof (relation "measure (\<lambda>d. nat \<lceil>d\<rceil>)")
  show "wf (measure (\<lambda>d::real. nat \<lceil>d\<rceil>))" by simp
next
  fix d :: real
  assume big: "\<not> d < 2"
  then have "d / 2 \<le> d - 1" by simp
  then have "\<lceil>d / 2\<rceil> \<le> \<lceil>d - 1\<rceil>" by (rule ceiling_mono)
  moreover have "\<lceil>d - 1\<rceil> = \<lceil>d\<rceil> - 1" by simp
  moreover have "0 < \<lceil>d\<rceil>" using big by simp
  ultimately show "(d / 2, d) \<in> measure (\<lambda>d. nat \<lceil>d\<rceil>)" by simp
qed

function exponent_lt1 :: "real \<Rightarrow> int" where
  "exponent_lt1 d = (if d \<le> 0 \<or> 1 \<le> d then 0 else exponent_lt1 (2 * d) - 1)"
  by pat_completeness auto
termination
proof (relation "measure (\<lambda>d. nat \<lceil>1 / d\<rceil>)")
  show "wf (measure (\<lambda>d::real. nat \<lceil>1 / d\<rceil>))" by simp
next
  fix d :: real
  assume "\<not> (d \<le> 0 \<or> 1 \<le> d)"
  then have d: "0 < d" "d < 1" by simp_all
  then have t: "1 < 1 / d" by simp
  have "\<lceil>1 / (2 * d)\<rceil> < \<lceil>1 / d\<rceil>"
  proof (cases "2 \<le> 1 / d")
    case True
    then have "1 / (2 * d) \<le> 1 / d - 1" using d by (simp add: field_simps)
    then have "\<lceil>1 / (2 * d)\<rceil> \<le> \<lceil>1 / d - 1\<rceil>" by (rule ceiling_mono)
    then show ?thesis by simp
  next
    case False
    then have "1 / (2 * d) \<le> 1" using d by (simp add: field_simps)
    then have "\<lceil>1 / (2 * d)\<rceil> \<le> 1" by (simp add: ceiling_le_iff)
    moreover have "1 < \<lceil>1 / d\<rceil>" using t by (simp add: less_ceiling_iff)
    ultimately show ?thesis by linarith
  qed
  moreover have "0 < \<lceil>1 / d\<rceil>" using t d by (simp add: less_ceiling_iff)
  ultimately show "(2 * d, d) \<in> measure (\<lambda>d. nat \<lceil>1 / d\<rceil>)" by simp
qed

definition binary_exponent :: "real \<Rightarrow> int" where
  "binary_exponent d = (if 1 \<le> d then exponent_ge1 d else exponent_lt1 d)"

text \<open>
  The distance from a positive binary64 value \<open>d\<close> to the binary64 value just below
  it: \<open>2 ^ (e - 52)\<close> inside the binade of exponent \<open>e\<close>, half of that when \<open>d\<close> is the
  power of two that opens the binade, and \<open>2 ^ (-1074)\<close> throughout the subnormal
  range and at the smallest normal value.
\<close>

definition gap_below :: "real \<Rightarrow> real" where
  "gap_below d =
     (let e = binary_exponent d in
      if e \<le> - 1022 then 2 powi (- 1074)
      else if d = 2 powi e then 2 powi (e - 53)
      else 2 powi (e - 52))"

text \<open>
  \<^verbatim>\<open>np.nextafter(d, 0)\<close>: zero stays zero, any other value moves one step towards
  zero. (A real number below the smallest subnormal is not a binary64 value; it is
  sent to zero, as rounding it first would.) Infinities and NaN are outside the model.
\<close>

definition nextafter_zero :: "real \<Rightarrow> real" where
  "nextafter_zero d =
     (if d = 0 then 0
      else if 0 < d then max 0 (d - gap_below d)
      else min 0 (d + gap_below (- d)))"

subsection \<open>The spatial index\<close>

text \<open>
  \<^verbatim>\<open>sklearn.neighbors.KDTree(x, metric="chebyshev")\<close> is a library class. The model
  keeps the points it was built over and answers the two queries the module uses by
  exhaustive search, which is what an exact index returns:
  \<^item> \<^verbatim>\<open>query(X, k)[0]\<close>: for each row of \<open>X\<close> the \<open>k\<close> smallest distances to the
    points of the tree, in ascending order; a ValueError when the tree has fewer than
    \<open>k\<close> points;
  \<^item> \<^verbatim>\<open>query_radius(X, r, count_only=True)\<close>: for each row of \<open>X\<close> the number of points
    of the tree at distance at most that row's radius.
\<close>

definition chebyshev :: "real list \<Rightarrow> real list \<Rightarrow> real" where
  "chebyshev p q = foldr max (map2 (\<lambda>a b. \<bar>a - b\<bar>) p q) 0"

datatype kdtree = KDTree (points: "real list list")

definition query :: "kdtree \<Rightarrow> real list list \<Rightarrow> nat \<Rightarrow> error + real list list" where
  "query kd X k =
     (if length (points kd) < k then Inl InsufficientSamples
      else Inr (map (\<lambda>p. take k (sort (map (chebyshev p) (points kd)))) X))"

definition query_radius_count :: "kdtree \<Rightarrow> real list list \<Rightarrow> real list \<Rightarrow> nat list" where
  "query_radius_count kd X r =
     map (\<lambda>(p, ri). length (filter (\<lambda>q. chebyshev p q \<le> ri) (points kd))) (zip X r)"

subsection \<open>Computations that count the indices they build\<close>

text \<open>
  A computation takes the number of spatial indices constructed so far and returns
  its outcome together with the new number. An error ends the computation.
\<close>

type_synonym 'a exec = "nat \<Rightarrow> (error + 'a) \<times> nat"

definition pure_exec :: "'a \<Rightarrow> 'a exec" where
  "pure_exec v = (\<lambda>c. (Inr v, c))"

definition lift_exec :: "error + 'a \<Rightarrow> 'a exec" where
  "lift_exec r = (\<lambda>c. (r, c))"

definition bind_exec :: "'a exec \<Rightarrow> ('a \<Rightarrow> 'b exec) \<Rightarrow> 'b exec" where
  "bind_exec m f = (\<lambda>c. case m c of (Inl e, c') \<Rightarrow> (Inl e, c') | (Inr v, c') \<Rightarrow> f v c')"

text \<open>The constructor refuses an array without samples or without features.\<close>

definition new_KDTree :: "ndarray \<Rightarrow> kdtree exec" where
  "new_KDTree x =
     (\<lambda>c. if nrows x = 0 \<or> ncols x = 0 then (Inl InvalidIndexData, c)
          else (Inr (KDTree (rows x)), Suc c))"

text \<open>
  \<^verbatim>\<open>
  def get_radius_kneighbors(x, n_neighbors):
      kd = KDTree(x, metric="chebyshev")
      neigh_dist = kd.query(x, k=n_neighbors+1)[0]
      radius = np.nextafter(neigh_dist[:, -1], 0)
      return radius
  \<close>
\<close>

definition get_radius_kneighbors :: "ndarray \<Rightarrow> nat \<Rightarrow> real list exec" where
  "get_radius_kneighbors x n_neighbors =
     bind_exec (new_KDTree x) (\<lambda>kd.
     bind_exec (lift_exec (query kd (rows x) (n_neighbors + 1))) (\<lambda>neigh_dist.
     pure_exec (map (\<lambda>dists. nextafter_zero (last dists)) neigh_dist)))"

text \<open>
  \<^verbatim>\<open>
  def num_points_within_radius(x, radius):
      kd = KDTree(x, metric="chebyshev")
      nx = kd.query_radius(x, radius, count_only=True, return_distance=False)
      return np.array(nx) - 1.0
  \<close>
\<close>

definition num_points_within_radius :: "ndarray \<Rightarrow> real list \<Rightarrow> real list exec" where
  "num_points_within_radius x radius =
     bind_exec (new_KDTree x) (\<lambda>kd.
     pure_exec (map (\<lambda>c. real c - 1) (query_radius_count kd (rows x) radius)))"

subsection \<open>Noise\<close>

text \<open>The values \<^verbatim>\<open>noise_type\<close> may hold: \<^verbatim>\<open>None\<close>, a boolean, an integer or a string.\<close>

datatype pyval = PyNone | PyBool bool | PyInt int | PyStr string

fun truthy :: "pyval \<Rightarrow> bool" where
  "truthy PyNone = False"
| "truthy (PyBool b) = b"
| "truthy (PyInt i) = (i \<noteq> 0)"
| "truthy (PyStr s) = (s \<noteq> [])"

text \<open>
  The random generator is the sequence of variates it is going to hand out;
  \<^verbatim>\<open>rng.random(shape)\<close> and \<^verbatim>\<open>rng.normal(size=shape)\<close> take the next ones, one for
  each element.
\<close>

type_synonym rng = "nat \<Rightarrow> real"

definition rng_take :: "rng \<Rightarrow> nat \<Rightarrow> real list \<times> rng" where
  "rng_take g m = (map g [0..<m], \<lambda>i. g (i + m))"

text \<open>\<^verbatim>\<open>np.maximum(1, np.mean(np.abs(x), axis=0))\<close>, one value for each column.\<close>

definition column_means :: "ndarray \<Rightarrow> real list" where
  "column_means x = map (\<lambda>c. max 1 (mean (map (\<lambda>r. \<bar>r ! c\<bar>) (rows x)))) [0..<ncols x]"

text \<open>
  \<^verbatim>\<open>
  def add_noise(x, rng, noise_type='uniform', amplitude=1e-10):
      x = x.astype(np.float64, copy=True)
      means = np.maximum(1, np.mean(np.abs(x), axis=0))
      if noise_type == 'uniform':
          x += amplitude * means * (rng.random(x.shape) - 0.5)
      elif noise_type == 'normal':
          x += amplitude * means * rng.normal(size=x.shape)
      else:
          raise ValueError('Invalid noise type')
      return x
  \<close>
  The element at flat position \<open>i\<close> of a rank-2 array lies in column \<open>i mod d\<close>. The
  generator is returned as well, advanced past the variates used.
\<close>

definition add_noise :: "ndarray \<Rightarrow> rng \<Rightarrow> pyval \<Rightarrow> real \<Rightarrow> error + ndarray \<times> rng" where
  "add_noise x g noise_type amplitude =
     (let means = column_means x; m = length (data x) in
      if noise_type = PyStr ''uniform'' then
        (let (u, g') = rng_take g m in
         Inr (x\<lparr>data := map (\<lambda>i. data x ! i + amplitude * (means ! (i mod ncols x)) * (u ! i - 1 / 2))
                            [0..<m]\<rparr>, g'))
      else if noise_type = PyStr ''normal'' then
        (let (u, g') = rng_take g m in
         Inr (x\<lparr>data := map (\<lambda>i. data x ! i + amplitude * (means ! (i mod ncols x)) * (u ! i))
                            [0..<m]\<rparr>, g'))
      else Inl InvalidNoiseKind)"

definition default_amplitude :: real where
  "default_amplitude = 1 / 10 ^ 10"

text \<open>\<^verbatim>\<open>[add_noise(t, rng, noise_type) for t in ts]\<close>: one generator serves all blocks in turn.\<close>

fun add_noise_each :: "ndarray list \<Rightarrow> rng \<Rightarrow> pyval \<Rightarrow> error + ndarray list" where
  "add_noise_each [] g noise_type = Inr []"
| "add_noise_each (t # ts) g noise_type =
     (case add_noise t g noise_type default_amplitude of
        Inl e \<Rightarrow> Inl e
      | Inr (t', g') \<Rightarrow>
          (case add_noise_each ts g' noise_type of
             Inl e \<Rightarrow> Inl e
           | Inr ts' \<Rightarrow> Inr (t' # ts')))"

text \<open>\<^verbatim>\<open>[ensure_2d(t) for t in ts]\<close>\<close>

fun ensure_2d_each :: "ndarray list \<Rightarrow> error + ndarray list" where
  "ensure_2d_each [] = Inr []"
| "ensure_2d_each (t # ts) =
     (case ensure_2d t of
        Inl e \<Rightarrow> Inl e
      | Inr t' \<Rightarrow> (case ensure_2d_each ts of Inl e \<Rightarrow> Inl e | Inr ts' \<Rightarrow> Inr (t' # ts')))"

subsection \<open>Multiplicities where the radius is zero\<close>

text \<open>\<^verbatim>\<open>a[mask]\<close> and \<^verbatim>\<open>a[mask] = v\<close> for a boolean mask as long as \<open>a\<close>.\<close>

fun mask_select :: "'a list \<Rightarrow> bool list \<Rightarrow> 'a list" where
  "mask_select (a # as) (b # bs) = (if b then a # mask_select as bs else mask_select as bs)"
| "mask_select as bs = []"

fun mask_assign :: "'a list \<Rightarrow> bool list \<Rightarrow> 'a list \<Rightarrow> 'a list" where
  "mask_assign (a # as) (True # bs) (v # vs) = v # mask_assign as bs vs"
| "mask_assign (a # as) (False # bs) vs = a # mask_assign as bs vs"
| "mask_assign as bs vs = as"

fun index_of :: "'a \<Rightarrow> 'a list \<Rightarrow> nat" where
  "index_of v [] = 0"
| "index_of v (x # xs) = (if x = v then 0 else Suc (index_of v xs))"

text \<open>
  \<^verbatim>\<open>np.unique(rs, axis=0, return_inverse=True, return_counts=True)\<close>: the distinct
  rows in ascending (lexicographic) order, for each row of \<open>rs\<close> its position among
  them, and how often each distinct row occurs.
\<close>

definition unique_rows :: "real list list \<Rightarrow> real list list \<times> nat list \<times> int list" where
  "unique_rows rs =
     (let vals = remdups (sort rs)
      in (vals, map (\<lambda>r. index_of r vals) rs, map (\<lambda>v. int (count_list rs v)) vals))"

text \<open>
  The block both estimators run on the joint matrix:
  \<^verbatim>\<open>
      if noise_type is None:
          mask = (radius == 0)
          if mask.sum() > 0:
              vals, ix, counts = np.unique(xy[mask], axis=0, return_inverse=True,
                                           return_counts=True)
              k[mask] = counts[ix] - 1
  \<close>
\<close>

definition tie_break :: "pyval \<Rightarrow> real list list \<Rightarrow> real list \<Rightarrow> int list \<Rightarrow> int list" where
  "tie_break noise_type xy radius k =
     (if noise_type = PyNone then
        (let mask = map (\<lambda>r. r = 0) radius in
         if 0 < length (filter id mask) then
           (let (vals, ix, counts) = unique_rows (mask_select xy mask)
            in mask_assign k mask (map (\<lambda>i. counts ! i - 1) ix))
         else k)
      else k)"

subsection \<open>The estimators\<close>

text \<open>Python's \<^verbatim>\<open>max(0, v)\<close>: \<open>v\<close> replaces \<open>0\<close> only when it is greater.\<close>

definition py_max0 :: "real \<Rightarrow> real" where
  "py_max0 v = (if 0 < v then v else 0)"

text \<open>\<^verbatim>\<open>np.mean(digamma(a))\<close> and \<^verbatim>\<open>np.mean(digamma(a + 1))\<close>\<close>

definition mean_digamma :: "(real \<Rightarrow> real) \<Rightarrow> real list \<Rightarrow> real" where
  "mean_digamma digamma a = mean (map digamma a)"

text \<open>
  \<^verbatim>\<open>
  def compute_mi(x, y, n_neighbors=3, noise_type=None):
      n_samples = len(x)
      x, y = [ensure_2d(t) for t in [x, y]]
      if noise_type:
          rng = default_rng()
          x, y = [add_noise(t, rng, noise_type) for t in [x, y]]
      xy = np.hstack((x, y))
      k = np.full(n_samples, n_neighbors)
      radius = get_radius_kneighbors(xy, n_neighbors)
      if noise_type is None: ...
      nx = num_points_within_radius(x, radius)
      ny = num_points_within_radius(y, radius)
      mi = max(0, digamma(n_samples) + np.mean(digamma(k))
               - np.mean(digamma(nx + 1)) - np.mean(digamma(ny + 1)))
      return mi
  \<close>
  The digamma function and the fresh generator \<^verbatim>\<open>default_rng()\<close> are parameters.
\<close>

definition compute_mi ::
  "(real \<Rightarrow> real) \<Rightarrow> rng \<Rightarrow> ndarray \<Rightarrow> ndarray \<Rightarrow> nat \<Rightarrow> pyval \<Rightarrow> real exec" where
  "compute_mi digamma rng x y n_neighbors noise_type =
     bind_exec (lift_exec (len x)) (\<lambda>n_samples.
     bind_exec (lift_exec (ensure_2d_each [x, y])) (\<lambda>ts.
     bind_exec (lift_exec (if truthy noise_type then add_noise_each ts rng noise_type else Inr ts)) (\<lambda>ts.
     let x = ts ! 0; y = ts ! 1 in
     bind_exec (lift_exec (hstack [x, y])) (\<lambda>xy.
     bind_exec (get_radius_kneighbors xy n_neighbors) (\<lambda>radius.
     let k = tie_break noise_type (rows xy) radius (replicate n_samples (int n_neighbors)) in
     bind_exec (num_points_within_radius x radius) (\<lambda>nx.
     bind_exec (num_points_within_radius y radius) (\<lambda>ny.
     pure_exec (py_max0 (digamma (real n_samples) + mean_digamma digamma (map real_of_int k)
                         - mean_digamma digamma (map (\<lambda>v. v + 1) nx)
                         - mean_digamma digamma (map (\<lambda>v. v + 1) ny))))))))))"

text \<open>
  \<^verbatim>\<open>
  def compute_cmi(x, y, z, n_neighbors=3, noise_type=None):
      n_samples = len(x)
      x, y, z = [ensure_2d(t) for t in [x, y, z]]
      if noise_type:
          rng = default_rng()
          x, y, z = [add_noise(t, rng, noise_type) for t in [x, y, z]]
      xyz = np.hstack((x, y, z))
      k = np.full(n_samples, n_neighbors)
      radius = get_radius_kneighbors(xyz, n_neighbors)
      if noise_type is None: ...
      nxz = num_points_within_radius(np.hstack((x, z)), radius)
      nyz = num_points_within_radius(np.hstack((y, z)), radius)
      nz = num_points_within_radius(z, radius)
      cmi = max(0, np.mean(digamma(k)) - np.mean(digamma(nxz + 1))
                - np.mean(digamma(nyz + 1)) + np.mean(digamma(nz + 1)))
      return cmi
  \<close>
\<close>

definition compute_cmi ::
  "(real \<Rightarrow> real) \<Rightarrow> rng \<Rightarrow> ndarray \<Rightarrow> ndarray \<Rightarrow> ndarray \<Rightarrow> nat \<Rightarrow> pyval \<Rightarrow> real exec" where
  "compute_cmi digamma rng x y z n_neighbors noise_type =
     bind_exec (lift_exec (len x)) (\<lambda>n_samples.
     bind_exec (lift_exec (ensure_2d_each [x, y, z])) (\<lambda>ts.
     bind_exec (lift_exec (if truthy noise_type then add_noise_each ts rng noise_type else Inr ts)) (\<lambda>ts.
     let x = ts ! 0; y = ts ! 1; z = ts ! 2 in
     bind_exec (lift_exec (hstack [x, y, z])) (\<lambda>xyz.
     bind_exec (get_radius_kneighbors xyz n_neighbors) (\<lambda>radius.
     let k = tie_break noise_type (rows xyz) radius (replicate n_samples (int n_neighbors)) in
     bind_exec (lift_exec (hstack [x, z])) (\<lambda>xz.
     bind_exec (num_points_within_radius xz radius) (\<lambda>nxz.
     bind_exec (lift_exec (hstack [y, z])) (\<lambda>yz.
     bind_exec (num_points_within_radius yz radius) (\<lambda>nyz.
     bind_exec (num_points_within_radius z radius) (\<lambda>nz.
     pure_exec (py_max0 (mean_digamma digamma (map real_of_int k)
                         - mean_digamma digamma (map (\<lambda>v. v + 1) nxz)
                         - mean_digamma digamma (map (\<lambda>v. v + 1) nyz)
                         + mean_digamma digamma (map (\<lambda>v. v + 1) nz)))))))))))))"

section \<open>Notions used to state the properties\<close>

subsection \<open>Well-formed inputs\<close>

text \<open>A rank-1 array of \<open>n\<close> samples, and a rank-2 array of \<open>n\<close> rows and \<open>d\<close> columns.\<close>

definition vector :: "nat \<Rightarrow> ndarray \<Rightarrow> bool" where
  "vector n x \<longleftrightarrow> shape x = [n] \<and> length (data x) = n"

definition is_matrix :: "nat \<Rightarrow> nat \<Rightarrow> ndarray \<Rightarrow> bool" where
  "is_matrix n d x \<longleftrightarrow> shape x = [n, d] \<and> length (data x) = n * d"

text \<open>
  The noise types with which a call gets past \<^verbatim>\<open>add_noise\<close>: those that skip it
  (\<^verbatim>\<open>if noise_type:\<close> is false) and the two it knows.
\<close>

definition valid_noise :: "pyval \<Rightarrow> bool" where
  "valid_noise noise_type \<longleftrightarrow>
     \<not> truthy noise_type \<or> noise_type = PyStr ''uniform'' \<or> noise_type = PyStr ''normal''"

subsection \<open>The stages of an estimator, as values\<close>

text \<open>
  The blocks an estimator works on: the first lines of \<^verbatim>\<open>compute_mi\<close> and
  \<^verbatim>\<open>compute_cmi\<close>, normalisation followed by the optional jitter.
\<close>

definition sample_blocks :: "pyval \<Rightarrow> rng \<Rightarrow> ndarray list \<Rightarrow> error + ndarray list" where
  "sample_blocks noise_type rng ts =
     (case ensure_2d_each ts of
        Inl e \<Rightarrow> Inl e
      | Inr ts' \<Rightarrow> if truthy noise_type then add_noise_each ts' rng noise_type else Inr ts')"

text \<open>The points of the joint space of some blocks: the rows of their \<^verbatim>\<open>hstack\<close>.\<close>

definition joint :: "ndarray list \<Rightarrow> real list list" where
  "joint blocks = (case hstack blocks of Inl e \<Rightarrow> [] | Inr m \<Rightarrow> rows m)"

text \<open>
  What \<^verbatim>\<open>get_radius_kneighbors\<close> returns for the points \<open>pts\<close>, what
  \<^verbatim>\<open>num_points_within_radius\<close> returns for them and a radius array, and the array
  \<^verbatim>\<open>k\<close> after the block on multiplicities.
\<close>

definition radius_of :: "real list list \<Rightarrow> nat \<Rightarrow> real list" where
  "radius_of pts k = map (\<lambda>p. nextafter_zero (sort (map (chebyshev p) pts) ! k)) pts"

definition counts_within :: "real list list \<Rightarrow> real list \<Rightarrow> real list" where
  "counts_within pts radius =
     map (\<lambda>(p, ri). real (length (filter (\<lambda>q. chebyshev p q \<le> ri) pts)) - 1) (zip pts radius)"

definition effective_k :: "pyval \<Rightarrow> real list list \<Rightarrow> nat \<Rightarrow> int list" where
  "effective_k noise_type pts n_neighbors =
     tie_break noise_type pts (radius_of pts n_neighbors) (replicate (length pts) (int n_neighbors))"

subsection \<open>The quantities of the specification\<close>



definition other_points :: "'a list \<Rightarrow> nat \<Rightarrow> 'a list" where
  "other_points pts i = take i pts @ drop (Suc i) pts"

definition kth_neighbour_distance :: "real list list \<Rightarrow> nat \<Rightarrow> nat \<Rightarrow> real" where
  "kth_neighbour_distance pts i k = sort (map (chebyshev (pts ! i)) (other_points pts i)) ! (k - 1)"



section \<open>Auxiliary facts\<close>

subsection \<open>Arrays, indices and stages\<close>

lemma length_chunks: "length (chunks n d xs) = n"
  by (induction n arbitrary: xs) auto

lemma chunks_concat:
  "\<forall>r \<in> set rs. length r = d \<Longrightarrow> chunks (length rs) d (concat rs) = rs"
  by (induction rs) auto

lemma chunks_row_length:
  "length xs = n * d \<Longrightarrow> r \<in> set (chunks n d xs) \<Longrightarrow> length r = d"
proof (induction n arbitrary: xs)
  case 0
  then show ?case by simp
next
  case (Suc n)
  have len: "length (drop d xs) = n * d" using Suc.prems(1) by simp
  from Suc.prems(2) have "r = take d xs \<or> r \<in> set (chunks n d (drop d xs))" by simp
  then show ?case
  proof
    assume "r = take d xs"
    then show ?thesis using Suc.prems(1) by simp
  next
    assume "r \<in> set (chunks n d (drop d xs))"
    then show ?thesis using Suc.IH[OF len] by blast
  qed
qed

lemma chunks_column: "chunks (length xs) (Suc 0) xs = map (\<lambda>v. [v]) xs"
proof -
  have "chunks (length (map (\<lambda>v. [v]) xs)) (Suc 0) (concat (map (\<lambda>v. [v]) xs)) = map (\<lambda>v. [v]) xs"
    by (rule chunks_concat) auto
  moreover have "concat (map (\<lambda>v. [v]) xs) = xs" by (induction xs) auto
  ultimately show ?thesis by simp
qed

lemma is_matrix_nrows: "is_matrix n d x \<Longrightarrow> nrows x = n"
  and is_matrix_ncols: "is_matrix n d x \<Longrightarrow> ncols x = d"
  by (simp_all add: is_matrix_def nrows_def ncols_def)

lemma is_matrix_rows:
  assumes "is_matrix n d x"
  shows "length (rows x) = n" and "\<And>r. r \<in> set (rows x) \<Longrightarrow> length r = d"
  using assms chunks_row_length[of "data x" n d]
  by (auto simp: rows_def is_matrix_nrows is_matrix_ncols length_chunks is_matrix_def)

lemma is_matrix_reshape_column:
  "is_matrix (length (data x)) 1 (reshape_column x)"
  by (simp add: is_matrix_def reshape_column_def)

lemma rows_reshape_column: "rows (reshape_column x) = map (\<lambda>v. [v]) (data x)"
  by (simp add: rows_def nrows_def ncols_def reshape_column_def chunks_column)

lemma is_matrix_of_rows:
  "\<forall>r \<in> set rs. length r = d \<Longrightarrow> is_matrix (length rs) d (of_rows d rs)"
  by (induction rs) (auto simp: is_matrix_def of_rows_def)

lemma rows_of_rows: "\<forall>r \<in> set rs. length r = d \<Longrightarrow> rows (of_rows d rs) = rs"
  by (simp add: rows_def nrows_def ncols_def of_rows_def chunks_concat)


lemma hstack_matrices:
  assumes "\<forall>a \<in> set (x # xs). is_matrix n (ncols a) a"
  defines "D \<equiv> sum_list (map ncols (x # xs))"
  defines "R \<equiv> map (\<lambda>i. concat (map (\<lambda>a. rows a ! i) (x # xs))) [0..<n]"
  shows "hstack (x # xs) = Inr (of_rows D R)"
    and "is_matrix n D (of_rows D R)"
    and "rows (of_rows D R) = R"
proof -
  have nr: "\<And>a. a \<in> set (x # xs) \<Longrightarrow> nrows a = n"
    using assms(1) is_matrix_nrows by blast
  have "\<And>i a. i < n \<Longrightarrow> a \<in> set (x # xs) \<Longrightarrow> length (rows a ! i) = ncols a"
  proof -
    fix i a assume "i < n" "a \<in> set (x # xs)"
    then have "is_matrix n (ncols a) a" using assms(1) by blast
    then show "length (rows a ! i) = ncols a"
      using is_matrix_rows[of n "ncols a" a] \<open>i < n\<close> by (metis nth_mem)
  qed
  then have "\<And>i. i < n \<Longrightarrow> map length (map (\<lambda>a. rows a ! i) (x # xs)) = map ncols (x # xs)"
    by (simp del: list.map)
  then have "\<And>i. i < n \<Longrightarrow> length (concat (map (\<lambda>a. rows a ! i) (x # xs))) = D"
    unfolding D_def length_concat by (simp only:)
  then have len: "\<forall>r \<in> set R. length r = D"
    unfolding R_def by auto
  have lenR: "length R = n" by (simp add: R_def)
  show "hstack (x # xs) = Inr (of_rows D R)"
    using nr by (simp add: D_def R_def)
  show "is_matrix n D (of_rows D R)"
    using is_matrix_of_rows[OF len] lenR by simp
  show "rows (of_rows D R) = R"
    using len by (rule rows_of_rows)
qed

lemma hstack_mismatch:
  "nrows y \<noteq> nrows x \<Longrightarrow> hstack [x, y] = Inl DimensionMismatch"
  by simp

lemma bind_exec_Inr: "m c = (Inr v, c') \<Longrightarrow> bind_exec m f c = f v c'"
  and bind_exec_Inl: "m c = (Inl e, c') \<Longrightarrow> bind_exec m f c = (Inl e, c')"
  by (simp_all add: bind_exec_def)

lemma lift_exec_apply: "lift_exec r c = (r, c)"
  and pure_exec_apply: "pure_exec v c = (Inr v, c)"
  by (simp_all add: lift_exec_def pure_exec_def)

lemma new_KDTree_ok:
  "is_matrix n d x \<Longrightarrow> 0 < n \<Longrightarrow> 0 < d \<Longrightarrow> new_KDTree x c = (Inr (KDTree (rows x)), Suc c)"
  by (simp add: new_KDTree_def is_matrix_nrows is_matrix_ncols)

lemma last_take_sort:
  "k < length ds \<Longrightarrow> last (take (k + 1) (sort ds)) = sort ds ! k"
  by (simp add: take_Suc_conv_app_nth)

lemma get_radius_kneighbors_ok:
  assumes "is_matrix n d x" "0 < d" "k < n"
  shows "get_radius_kneighbors x k c = (Inr (radius_of (rows x) k), Suc c)"
proof -
  have n: "length (rows x) = n" using assms(1) by (rule is_matrix_rows)
  have kd: "new_KDTree x c = (Inr (KDTree (rows x)), Suc c)"
    using assms by (intro new_KDTree_ok[of n d]) auto
  have q: "query (KDTree (rows x)) (rows x) (k + 1)
           = Inr (map (\<lambda>p. take (k + 1) (sort (map (chebyshev p) (rows x)))) (rows x))"
    using assms(3) n by (simp add: query_def)
  show ?thesis
    unfolding get_radius_kneighbors_def
    by (simp add: kd lift_exec_apply pure_exec_apply q bind_exec_def
        radius_of_def last_take_sort n assms(3) del: One_nat_def)
qed


lemma num_points_within_radius_ok:
  assumes "is_matrix n d x" "0 < d" "0 < n"
  shows "num_points_within_radius x r c = (Inr (counts_within (rows x) r), Suc c)"
proof -
  have kd: "new_KDTree x c = (Inr (KDTree (rows x)), Suc c)"
    using assms by (intro new_KDTree_ok[of n d]) auto
  show ?thesis
    unfolding num_points_within_radius_def
    by (simp add: kd bind_exec_def pure_exec_apply counts_within_def query_radius_count_def
        split_def)
qed

lemma vector_ensure_2d:
  "vector n x \<Longrightarrow> ensure_2d x = Inr (reshape_column x) \<and> is_matrix n 1 (reshape_column x)"
  by (simp add: vector_def ensure_2d_def ndim_def is_matrix_def reshape_column_def)

lemma vector_len: "vector n x \<Longrightarrow> len x = Inr n"
  by (simp add: vector_def len_def)

lemma add_noise_matrix:
  "add_noise x g nt a = Inr (x', g') \<Longrightarrow> is_matrix n d x \<Longrightarrow> is_matrix n d x'"
  by (auto simp: add_noise_def Let_def is_matrix_def rng_take_def split: if_splits)

lemma add_noise_valid:
  "nt = PyStr ''uniform'' \<or> nt = PyStr ''normal'' \<Longrightarrow> \<exists>x' g'. add_noise x g nt a = Inr (x', g')"
  by (auto simp: add_noise_def Let_def rng_take_def)

lemma add_noise_invalid:
  "nt \<noteq> PyStr ''uniform'' \<Longrightarrow> nt \<noteq> PyStr ''normal'' \<Longrightarrow> add_noise x g nt a = Inl InvalidNoiseKind"
  by (simp add: add_noise_def Let_def)

lemma add_noise_each_matrices:
  "add_noise_each ts g nt = Inr ts' \<Longrightarrow> list_all2 (\<lambda>t t'. \<forall>n d. is_matrix n d t \<longrightarrow> is_matrix n d t') ts ts'"
proof (induction ts arbitrary: g ts')
  case Nil
  then show ?case by simp
next
  case (Cons t ts)
  then show ?case
    by (auto split: sum.splits prod.splits dest: add_noise_matrix)
qed

lemma add_noise_each_valid:
  "nt = PyStr ''uniform'' \<or> nt = PyStr ''normal'' \<Longrightarrow> \<exists>ts'. add_noise_each ts g nt = Inr ts'"
proof (induction ts arbitrary: g)
  case Nil
  then show ?case by simp
next
  case (Cons t ts)
  obtain t' g' where t: "add_noise t g nt default_amplitude = Inr (t', g')"
    using add_noise_valid[OF Cons.prems] by blast
  obtain ts' where "add_noise_each ts g' nt = Inr ts'"
    using Cons.IH[OF Cons.prems] by blast
  with t show ?case by simp
qed

lemma sample_blocks2:
  assumes "vector n x" "vector m y" "valid_noise nt"
  shows "\<exists>X Y. sample_blocks nt g [x, y] = Inr [X, Y] \<and> is_matrix n 1 X \<and> is_matrix m 1 Y"
proof (cases "truthy nt")
  case False
  then show ?thesis
    using vector_ensure_2d[OF assms(1)] vector_ensure_2d[OF assms(2)]
    by (simp add: sample_blocks_def)
next
  case True
  then have v: "nt = PyStr ''uniform'' \<or> nt = PyStr ''normal''"
    using assms(3) by (simp add: valid_noise_def)
  obtain ts' where ts': "add_noise_each [reshape_column x, reshape_column y] g nt = Inr ts'"
    using add_noise_each_valid[OF v] by blast
  from add_noise_each_matrices[OF ts']
  obtain X Y where "ts' = [X, Y]" "is_matrix n 1 X" "is_matrix m 1 Y"
    using vector_ensure_2d[OF assms(1)] vector_ensure_2d[OF assms(2)]
    by (auto simp: list_all2_Cons1)
  then show ?thesis
    using True ts' vector_ensure_2d[OF assms(1)] vector_ensure_2d[OF assms(2)]
    by (simp add: sample_blocks_def)
qed

lemma sample_blocks2_shape:
  assumes "vector n x" "vector m y" "sample_blocks nt g [x, y] = Inr bs"
  shows "\<exists>X Y. bs = [X, Y] \<and> is_matrix n 1 X \<and> is_matrix m 1 Y"
proof (cases "truthy nt")
  case False
  then show ?thesis
    using assms(3) vector_ensure_2d[OF assms(1)] vector_ensure_2d[OF assms(2)]
    by (auto simp add: sample_blocks_def)
next
  case True
  then have ts': "add_noise_each [reshape_column x, reshape_column y] g nt = Inr bs"
    using assms(3) vector_ensure_2d[OF assms(1)] vector_ensure_2d[OF assms(2)]
    by (simp add: sample_blocks_def)
  from add_noise_each_matrices[OF ts']
  show ?thesis
    using vector_ensure_2d[OF assms(1)] vector_ensure_2d[OF assms(2)]
    by (auto simp: list_all2_Cons1)
qed

lemma compute_mi_blocks:
  "compute_mi dg g x y kn nt =
     bind_exec (lift_exec (len x)) (\<lambda>n_samples.
     bind_exec (lift_exec (sample_blocks nt g [x, y])) (\<lambda>ts.
     let x = ts ! 0; y = ts ! 1 in
     bind_exec (lift_exec (hstack [x, y])) (\<lambda>xy.
     bind_exec (get_radius_kneighbors xy kn) (\<lambda>radius.
     let k = tie_break nt (rows xy) radius (replicate n_samples (int kn)) in
     bind_exec (num_points_within_radius x radius) (\<lambda>nx.
     bind_exec (num_points_within_radius y radius) (\<lambda>ny.
     pure_exec (py_max0 (dg (real n_samples) + mean_digamma dg (map real_of_int k)
                         - mean_digamma dg (map (\<lambda>v. v + 1) nx)
                         - mean_digamma dg (map (\<lambda>v. v + 1) ny)))))))))"
  unfolding compute_mi_def sample_blocks_def
  by (rule ext) (simp add: bind_exec_def lift_exec_def split: sum.splits)

lemma joint_matrices:
  assumes "\<forall>a \<in> set (x # xs). is_matrix n (ncols a) a"
  shows "\<exists>m. hstack (x # xs) = Inr m \<and> is_matrix n (sum_list (map ncols (x # xs))) m
             \<and> rows m = joint (x # xs)"
  using hstack_matrices[OF assms] by (simp add: joint_def del: hstack.simps)

lemma joint2:
  assumes "is_matrix n dx X" "is_matrix n dy Y"
  shows "\<exists>m. hstack [X, Y] = Inr m \<and> is_matrix n (dx + dy) m \<and> rows m = joint [X, Y]"
proof -
  have "\<forall>a \<in> set [X, Y]. is_matrix n (ncols a) a"
    using assms by (auto simp: is_matrix_ncols)
  from joint_matrices[OF this] show ?thesis
    using assms by (simp add: is_matrix_ncols del: hstack.simps)
qed

lemma joint3:
  assumes "is_matrix n dx X" "is_matrix n dy Y" "is_matrix n dz Z"
  shows "\<exists>m. hstack [X, Y, Z] = Inr m \<and> is_matrix n (dx + dy + dz) m \<and> rows m = joint [X, Y, Z]"
proof -
  have "\<forall>a \<in> set [X, Y, Z]. is_matrix n (ncols a) a"
    using assms by (auto simp: is_matrix_ncols)
  from joint_matrices[OF this] show ?thesis
    using assms by (simp add: is_matrix_ncols add.assoc del: hstack.simps)
qed

lemma compute_mi_core:
  assumes "len x = Inr n" "sample_blocks nt g [x, y] = Inr [X, Y]"
    and "is_matrix n 1 X" "is_matrix n 1 Y" "kn < n"
  shows "compute_mi dg g x y kn nt c =
     (Inr (py_max0 (dg (real n)
        + mean_digamma dg (map real_of_int
            (tie_break nt (joint [X, Y]) (radius_of (joint [X, Y]) kn) (replicate n (int kn))))
        - mean_digamma dg (map (\<lambda>v. v + 1) (counts_within (rows X) (radius_of (joint [X, Y]) kn)))
        - mean_digamma dg (map (\<lambda>v. v + 1) (counts_within (rows Y) (radius_of (joint [X, Y]) kn))))),
      c + 3)"
proof -
  obtain m where m: "hstack [X, Y] = Inr m" "is_matrix n (1 + 1) m" "rows m = joint [X, Y]"
    using joint2[OF assms(3,4)] by blast
  have n: "0 < n" using assms(5) by simp
  have r: "get_radius_kneighbors m kn c = (Inr (radius_of (joint [X, Y]) kn), Suc c)"
    using get_radius_kneighbors_ok[OF m(2) _ assms(5)] m(3) by simp
  have cx: "\<And>r c. num_points_within_radius X r c = (Inr (counts_within (rows X) r), Suc c)"
    using num_points_within_radius_ok[OF assms(3) _ n] by simp
  have cy: "\<And>r c. num_points_within_radius Y r c = (Inr (counts_within (rows Y) r), Suc c)"
    using num_points_within_radius_ok[OF assms(4) _ n] by simp
  show ?thesis
    unfolding compute_mi_blocks
    by (simp add: bind_exec_def lift_exec_apply pure_exec_apply assms(1,2) m r cx cy
        del: hstack.simps)
qed

lemma chebyshev_self: "chebyshev p p = 0"
  by (induction p) (simp_all add: chebyshev_def)

lemma chebyshev_nonneg: "0 \<le> chebyshev p q"
proof -
  have "0 \<le> foldr max xs (0::real)" for xs by (induction xs) auto
  then show ?thesis by (simp add: chebyshev_def)
qed




lemma mem_sort_nth: "k < length ds \<Longrightarrow> sort ds ! k \<in> set ds"
  by (metis length_sort nth_mem set_sort)













lemma tie_break_not_None: "nt \<noteq> PyNone \<Longrightarrow> tie_break nt pts radius k = k"
  by (simp add: tie_break_def)


lemma ensure_2d_each_vectors:
  "list_all2 vector ns ts \<Longrightarrow>
   ensure_2d_each ts = Inr (map reshape_column ts)
   \<and> list_all2 (\<lambda>n t. is_matrix n 1 t) ns (map reshape_column ts)"
proof (induction ns ts rule: list_all2_induct)
  case Nil
  then show ?case by simp
next
  case (Cons n ns t ts)
  then show ?case using vector_ensure_2d[of n t] by simp
qed




lemma sample_blocks_falsy:
  assumes "list_all2 vector ns ts" "\<not> truthy nt"
  shows "sample_blocks nt g ts = Inr (map reshape_column ts)"
  using assms ensure_2d_each_vectors[OF assms(1)] by (simp add: sample_blocks_def)

lemma compute_cmi_blocks:
  "compute_cmi dg g x y z kn nt =
     bind_exec (lift_exec (len x)) (\<lambda>n_samples.
     bind_exec (lift_exec (sample_blocks nt g [x, y, z])) (\<lambda>ts.
     let x = ts ! 0; y = ts ! 1; z = ts ! 2 in
     bind_exec (lift_exec (hstack [x, y, z])) (\<lambda>xyz.
     bind_exec (get_radius_kneighbors xyz kn) (\<lambda>radius.
     let k = tie_break nt (rows xyz) radius (replicate n_samples (int kn)) in
     bind_exec (lift_exec (hstack [x, z])) (\<lambda>xz.
     bind_exec (num_points_within_radius xz radius) (\<lambda>nxz.
     bind_exec (lift_exec (hstack [y, z])) (\<lambda>yz.
     bind_exec (num_points_within_radius yz radius) (\<lambda>nyz.
     bind_exec (num_points_within_radius z radius) (\<lambda>nz.
     pure_exec (py_max0 (mean_digamma dg (map real_of_int k)
                         - mean_digamma dg (map (\<lambda>v. v + 1) nxz)
                         - mean_digamma dg (map (\<lambda>v. v + 1) nyz)
                         + mean_digamma dg (map (\<lambda>v. v + 1) nz))))))))))))"
  unfolding compute_cmi_def sample_blocks_def
  by (rule ext) (simp add: bind_exec_def lift_exec_def split: sum.splits)

lemma compute_cmi_core:
  assumes "len x = Inr n" "sample_blocks nt g [x, y, z] = Inr [X, Y, Z]"
    and "is_matrix n 1 X" "is_matrix n 1 Y" "is_matrix n 1 Z" "kn < n"
  shows "compute_cmi dg g x y z kn nt c =
     (Inr (py_max0 (
          mean_digamma dg (map real_of_int
            (tie_break nt (joint [X, Y, Z]) (radius_of (joint [X, Y, Z]) kn) (replicate n (int kn))))
        - mean_digamma dg (map (\<lambda>v. v + 1) (counts_within (joint [X, Z]) (radius_of (joint [X, Y, Z]) kn)))
        - mean_digamma dg (map (\<lambda>v. v + 1) (counts_within (joint [Y, Z]) (radius_of (joint [X, Y, Z]) kn)))
        + mean_digamma dg (map (\<lambda>v. v + 1) (counts_within (rows Z) (radius_of (joint [X, Y, Z]) kn))))),
      c + 4)"
proof -
  obtain m where m: "hstack [X, Y, Z] = Inr m" "is_matrix n (1 + 1 + 1) m" "rows m = joint [X, Y, Z]"
    using joint3[OF assms(3,4,5)] by blast
  obtain xz where xz: "hstack [X, Z] = Inr xz" "is_matrix n (1 + 1) xz" "rows xz = joint [X, Z]"
    using joint2[OF assms(3,5)] by blast
  obtain yz where yz: "hstack [Y, Z] = Inr yz" "is_matrix n (1 + 1) yz" "rows yz = joint [Y, Z]"
    using joint2[OF assms(4,5)] by blast
  have n: "0 < n" using assms(6) by simp
  have r: "get_radius_kneighbors m kn c = (Inr (radius_of (joint [X, Y, Z]) kn), Suc c)"
    using get_radius_kneighbors_ok[OF m(2) _ assms(6)] m(3) by simp
  have cxz: "\<And>r c. num_points_within_radius xz r c = (Inr (counts_within (joint [X, Z]) r), Suc c)"
    using num_points_within_radius_ok[OF xz(2) _ n] xz(3) by simp
  have cyz: "\<And>r c. num_points_within_radius yz r c = (Inr (counts_within (joint [Y, Z]) r), Suc c)"
    using num_points_within_radius_ok[OF yz(2) _ n] yz(3) by simp
  have cz: "\<And>r c. num_points_within_radius Z r c = (Inr (counts_within (rows Z) r), Suc c)"
    using num_points_within_radius_ok[OF assms(5) _ n] by simp
  show ?thesis
    unfolding compute_cmi_blocks
    by (simp add: bind_exec_def lift_exec_apply pure_exec_apply assms(1,2) m r xz yz cxz cyz cz
        del: hstack.simps)
qed








lemma nextafter_zero_zero: "nextafter_zero 0 = 0"
  by (simp add: nextafter_zero_def)

lemma nextafter_zero_one: "nextafter_zero 1 = 1 - 2 powi (- 53)"
  by (simp add: nextafter_zero_def gap_below_def binary_exponent_def)


subsection \<open>A worked example\<close>



lemma example_radius:
  "radius_of [[0, 0], [0, 0], [0, 0], [1, 1]] 1 = [0, 0, 0, 1 - 2 powi (- 53)]"
  by (simp add: radius_of_def chebyshev_def nextafter_zero_zero nextafter_zero_one)

lemma example_k:
  "effective_k PyNone [[0, 0], [0, 0], [0, 0], [1, 1]] 1 = [2, 2, 2, 1]"
  unfolding effective_k_def example_radius
  by (simp add: tie_break_def unique_rows_def Let_def)




















lemma effective_k_not_None:
  "nt \<noteq> PyNone \<Longrightarrow> effective_k nt pts kn = replicate (length pts) (int kn)"
  by (simp add: effective_k_def tie_break_not_None)

subsection \<open>The step towards zero\<close>







subsection \<open>Distances\<close>




subsection \<open>Sorted distances\<close>




subsection \<open>Arguments of the digamma function\<close>




subsection \<open>The neighbours of a point, the point itself left out\<close>

lemma other_points_distances:
  assumes "i < length pts"
  shows "mset (map f pts) = mset (f (pts ! i) # map f (other_points pts i))"
proof -
  have "pts = take i pts @ pts ! i # drop (Suc i) pts"
    using assms by (rule id_take_nth_drop)
  then have "mset pts = mset (pts ! i # other_points pts i)"
    unfolding other_points_def by (metis mset.simps(2) mset_append union_mset_add_mset_right)
  then have "mset (map f pts) = mset (map f (pts ! i # other_points pts i))"
    by (metis mset_map)
  then show ?thesis by simp
qed


lemma sort_with_self:
  assumes "i < length pts"
  shows "sort (map (chebyshev (pts ! i)) pts)
         = 0 # sort (map (chebyshev (pts ! i)) (other_points pts i))"
proof -
  let ?o = "map (chebyshev (pts ! i)) (other_points pts i)"
  have "mset (0 # sort ?o) = mset (map (chebyshev (pts ! i)) pts)"
    using other_points_distances[OF assms, of "chebyshev (pts ! i)"]
    by (simp add: chebyshev_self)
  moreover have "sorted (0 # sort ?o)"
    using chebyshev_nonneg by auto
  ultimately show ?thesis by (rule properties_for_sort)
qed

lemma kth_distance_without_self:
  assumes "i < length pts" "0 < k"
  shows "sort (map (chebyshev (pts ! i)) pts) ! k = kth_neighbour_distance pts i k"
  using assms(2) by (cases k) (simp_all add: sort_with_self[OF assms(1)] kth_neighbour_distance_def)






lemma kth_neighbour_distance_nonneg:
  assumes "i < length pts" "0 < k" "k < length pts"
  shows "0 \<le> kth_neighbour_distance pts i k"
proof -
  have "sort (map (chebyshev (pts ! i)) pts) ! k \<in> set (map (chebyshev (pts ! i)) pts)"
    using assms(3) by (intro mem_sort_nth) simp
  then show ?thesis
    using kth_distance_without_self[OF assms(1,2)] chebyshev_nonneg by auto
qed


subsection \<open>The binary64 value below a positive binary64 value\<close>





























section \<open>The claims\<close>

subsection \<open>Shape normalisation\<close>

lemma ensure_2d_rank1:
  "ndim x = 1 \<Longrightarrow> ensure_2d x = Inr \<lparr>shape = [length (data x), 1], data = data x\<rparr>"
  by (simp add: ensure_2d_def reshape_column_def)

lemma ensure_2d_other_rank:
  "ndim x \<noteq> 1 \<Longrightarrow> ensure_2d x = Inl InvalidShape"
  by (simp add: ensure_2d_def)

text \<open>
  Claim C1. The shape normaliser should map a rank-1 array of length \<open>n\<close> to an
  \<open>n\<close>-by-1 matrix, pass a rank-2 array through unchanged and reject every other rank.
  The code rejects a rank-2 array as well: the 1-by-2 matrix \<open>[[1, 2]]\<close> is answered
  with the error whose message says that the rank is "not equal to 1 or 2".
\<close>

theorem ensure_2d_rejects_rank2:
  "ensure_2d \<lparr>shape = [1, 2], data = [1, 2]\<rparr> = Inl InvalidShape
   \<and> wf_array \<lparr>shape = [1, 2], data = [1, 2]\<rparr>
   \<and> ndim \<lparr>shape = [1, 2], data = [1, 2]\<rparr> = 2"
  by (simp add: ensure_2d_def ndim_def wf_array_def)

subsection \<open>The estimate of mutual information\<close>



subsection \<open>The estimate of conditional mutual information\<close>



subsection \<open>Effective neighbour counts\<close>



subsection \<open>Blocks of different length\<close>



subsection \<open>Too few samples\<close>




subsection \<open>Non-negative estimates\<close>



subsection \<open>Noise types that are false without being None\<close>

text \<open>
  Claim C10. A \<^verbatim>\<open>noise_type\<close> that Python takes for false but that is not
  \<^verbatim>\<open>None\<close> (the empty string, \<open>0\<close>, \<^verbatim>\<open>False\<close>) raises no error about the noise
  kind and adds no jitter: the estimators work on the normalised blocks as they are.
  The block on multiplicities, which asks for \<^verbatim>\<open>noise_type is None\<close>, is skipped as
  well, so every sample keeps \<open>k\<^sub>i = n_neighbors\<close>, whatever its radius.
\<close>

theorem falsy_noise_type:
  assumes "\<not> truthy noise_type" "noise_type \<noteq> PyNone"
    and "vector n x" "vector n y" "vector n z" "n_neighbors < n"
  defines "X \<equiv> reshape_column x" and "Y \<equiv> reshape_column y" and "Z \<equiv> reshape_column z"
  defines "k \<equiv> replicate n (int n_neighbors)"
  shows "sample_blocks noise_type rng [x, y] = Inr [X, Y]
    \<and> sample_blocks noise_type rng [x, y, z] = Inr [X, Y, Z]
    \<and> effective_k noise_type pts n_neighbors = replicate (length pts) (int n_neighbors)
    \<and> compute_mi digamma rng x y n_neighbors noise_type 0 =
      (Inr (py_max0 (digamma (real n)
         + mean_digamma digamma (map real_of_int k)
         - mean_digamma digamma (map (\<lambda>v. v + 1) (counts_within (rows X) (radius_of (joint [X, Y]) n_neighbors)))
         - mean_digamma digamma (map (\<lambda>v. v + 1) (counts_within (rows Y) (radius_of (joint [X, Y]) n_neighbors))))),
       3)
    \<and> compute_cmi digamma rng x y z n_neighbors noise_type 0 =
      (Inr (py_max0 (
           mean_digamma digamma (map real_of_int k)
         - mean_digamma digamma (map (\<lambda>v. v + 1) (counts_within (joint [X, Z]) (radius_of (joint [X, Y, Z]) n_neighbors)))
         - mean_digamma digamma (map (\<lambda>v. v + 1) (counts_within (joint [Y, Z]) (radius_of (joint [X, Y, Z]) n_neighbors)))
         + mean_digamma digamma (map (\<lambda>v. v + 1) (counts_within (rows Z) (radius_of (joint [X, Y, Z]) n_neighbors))))),
       4)"
proof -
  have v2: "list_all2 vector [n, n] [x, y]" and v3: "list_all2 vector [n, n, n] [x, y, z]"
    using assms(3,4,5) by simp_all
  have b2: "sample_blocks noise_type rng [x, y] = Inr [X, Y]"
    using sample_blocks_falsy[OF v2 assms(1)] by (simp add: X_def Y_def)
  have b3: "sample_blocks noise_type rng [x, y, z] = Inr [X, Y, Z]"
    using sample_blocks_falsy[OF v3 assms(1)] by (simp add: X_def Y_def Z_def)
  have ek: "effective_k noise_type pts n_neighbors = replicate (length pts) (int n_neighbors)"
    using assms(2) by (rule effective_k_not_None)
  have X: "is_matrix n 1 X" and Y: "is_matrix n 1 Y" and Z: "is_matrix n 1 Z"
    using vector_ensure_2d[OF assms(3)] vector_ensure_2d[OF assms(4)] vector_ensure_2d[OF assms(5)]
    by (simp_all add: X_def Y_def Z_def)
  have mi: "compute_mi digamma rng x y n_neighbors noise_type 0 =
      (Inr (py_max0 (digamma (real n)
         + mean_digamma digamma (map real_of_int k)
         - mean_digamma digamma (map (\<lambda>v. v + 1) (counts_within (rows X) (radius_of (joint [X, Y]) n_neighbors)))
         - mean_digamma digamma (map (\<lambda>v. v + 1) (counts_within (rows Y) (radius_of (joint [X, Y]) n_neighbors))))),
       3)"
    using compute_mi_core[OF vector_len[OF assms(3)] b2 X Y assms(6), of digamma 0]
    by (simp add: tie_break_not_None[OF assms(2)] k_def)
  have cmi: "compute_cmi digamma rng x y z n_neighbors noise_type 0 =
      (Inr (py_max0 (
           mean_digamma digamma (map real_of_int k)
         - mean_digamma digamma (map (\<lambda>v. v + 1) (counts_within (joint [X, Z]) (radius_of (joint [X, Y, Z]) n_neighbors)))
         - mean_digamma digamma (map (\<lambda>v. v + 1) (counts_within (joint [Y, Z]) (radius_of (joint [X, Y, Z]) n_neighbors)))
         + mean_digamma digamma (map (\<lambda>v. v + 1) (counts_within (rows Z) (radius_of (joint [X, Y, Z]) n_neighbors))))),
       4)"
    using compute_cmi_core[OF vector_len[OF assms(3)] b3 X Y Z assms(6), of digamma 0]
    by (simp add: tie_break_not_None[OF assms(2)] k_def)
  from b2 b3 ek mi cmi show ?thesis by blast
qed

theorem falsy_noise_type_witness:
  "\<not> truthy (PyStr '''') \<and> PyStr '''' \<noteq> PyNone
   \<and> vector 4 \<lparr>shape = [4], data = [0, 0, 0, 1]\<rparr> \<and> (1::nat) < 4
   \<and> sample_blocks (PyStr '''') (\<lambda>i. 1) [\<lparr>shape = [4], data = [0, 0, 0, 1]\<rparr>, \<lparr>shape = [4], data = [0, 0, 0, 1]\<rparr>]
       = Inr [\<lparr>shape = [4, 1], data = [0, 0, 0, 1]\<rparr>, \<lparr>shape = [4, 1], data = [0, 0, 0, 1]\<rparr>]
   \<and> radius_of [[0, 0], [0, 0], [0, 0], [1, 1]] 1 ! 0 = 0
   \<and> effective_k (PyStr '''') [[0, 0], [0, 0], [0, 0], [1, 1]] 1 = [1, 1, 1, 1]
   \<and> effective_k PyNone [[0, 0], [0, 0], [0, 0], [1, 1]] 1 = [2, 2, 2, 1]"
proof -
  let ?x = "\<lparr>shape = [4], data = [0, 0, 0, 1::real]\<rparr>"
  let ?pts = "[[0, 0], [0, 0], [0, 0], [1, 1::real]]"
  have f: "\<not> truthy (PyStr '''')" and ne: "PyStr '''' \<noteq> PyNone" by simp_all
  have v: "vector 4 ?x" by (simp add: vector_def)
  have k: "(1::nat) < 4" by simp
  note t = falsy_noise_type[OF f ne v v v k, of "\<lambda>i. 1" ?pts "\<lambda>v. v"]
  have b: "sample_blocks (PyStr '''') (\<lambda>i. 1) [?x, ?x]
           = Inr [\<lparr>shape = [4, 1], data = [0, 0, 0, 1]\<rparr>, \<lparr>shape = [4, 1], data = [0, 0, 0, 1]\<rparr>]"
    using t by (simp add: reshape_column_def)
  have r0: "radius_of ?pts 1 ! 0 = 0"
    unfolding example_radius by simp
  have e: "effective_k (PyStr '''') ?pts 1 = [1, 1, 1, 1]"
    using t by (simp add: numeral_eq_Suc)
  from f ne v k b r0 e example_k show ?thesis by blast
qed

subsection \<open>Many duplicates\<close>



subsection \<open>The radius and the count within it\<close>




end
